theory Spec2Isabelle
  imports Complex_Main "HOL-Library.AList"
begin

section \<open>Radioactive decay calculator: the numeric core of app.py\<close>

text \<open>
  The development embeds the computational part of \<^verbatim>\<open>src/app.py\<close>: the
  unit table and the four arithmetic helpers (lines 94-134), the series construction of
  \<^verbatim>\<open>run_simple_mode\<close> (lines 226-254) and the two catalog handlers of
  \<^verbatim>\<open>render_manager\<close> (lines 417-438).

  Python floats are idealised as the real numbers: rounding, overflow and NaN are not
  modelled. The isotope table \<^verbatim>\<open>st.session_state.isotopes\<close> is a Python
  dict; it is modelled as an association list in insertion order whose keys are distinct.
  Strings are byte lists, so a name outside ASCII is spelled by its UTF-8 bytes.
\<close>

subsection \<open>Constants\<close>

definition AVOGADRO_NUMBER :: real where
  "AVOGADRO_NUMBER = 602214076 * 10 ^ 15"

text \<open>One isotope entry: the inner dict with the keys lambda, half_life, unit, atomic_weight.\<close>

record isotope =
  lambda :: real
  half_life :: real
  unit :: string
  atomic_weight :: real

type_synonym catalog = "(string \<times> isotope) list"

text \<open>
  \<^verbatim>\<open>DEFAULT_ISOTOPES\<close> (lines 84-92). The accented letters of the names are
  their two UTF-8 bytes.
\<close>

definition DEFAULT_ISOTOPES :: catalog where
  "DEFAULT_ISOTOPES =
     [(''C'' @ [CHR 0xC3, CHR 0xA9] @ ''sio-137'',
       \<lparr>lambda = 2298 / 100000, half_life = 3017 / 100, unit = ''anos'',
        atomic_weight = 136907 / 1000\<rparr>),
      (''B'' @ [CHR 0xC3, CHR 0xA1] @ ''rio-137m'',
       \<lparr>lambda = 2366 / 10, half_life = 255 / 100, unit = ''minutos'',
        atomic_weight = 1369 / 10\<rparr>),
      (''Carbono-14'',
       \<lparr>lambda = 120968 / 10 ^ 9, half_life = 5730, unit = ''anos'',
        atomic_weight = 14003 / 1000\<rparr>),
      (''T'' @ [CHR 0xC3, CHR 0xB3] @ ''rio-232'',
       \<lparr>lambda = 495105 / 10 ^ 16, half_life = 14 * 10 ^ 9, unit = ''anos'',
        atomic_weight = 232038 / 1000\<rparr>),
      (''Cobalto-60'',
       \<lparr>lambda = 1315 / 10000, half_life = 527 / 100, unit = ''anos'',
        atomic_weight = 59933 / 1000\<rparr>),
      (''Iodo-131'',
       \<lparr>lambda = 3155 / 100, half_life = 802 / 100, unit = ''dias'',
        atomic_weight = 130906 / 1000\<rparr>),
      (''Ur'' @ [CHR 0xC3, CHR 0xA2] @ ''nio-238'',
       \<lparr>lambda = 1551 / 10 ^ 13, half_life = 4468 * 10 ^ 6, unit = ''anos'',
        atomic_weight = 238050 / 1000\<rparr>)]"

definition CONVERSIONS_TO_YEARS :: "(string \<times> real) list" where
  "CONVERSIONS_TO_YEARS =
     [(''segundos'', 1 / (36525 / 100 * 24 * 60 * 60)),
      (''minutos'', 1 / (36525 / 100 * 24 * 60)),
      (''horas'', 1 / (36525 / 100 * 24)),
      (''dias'', 1 / (36525 / 100)),
      (''anos'', 1)]"

subsection \<open>Arithmetic helpers\<close>

text \<open>\<^verbatim>\<open>CONVERSIONS_TO_YEARS.get(unit, 1)\<close>: a missing key yields the factor 1.\<close>

definition convert_time_to_years :: "real \<Rightarrow> string \<Rightarrow> real" where
  "convert_time_to_years value unit_name =
     value * (case map_of CONVERSIONS_TO_YEARS unit_name of None \<Rightarrow> 1 | Some f \<Rightarrow> f)"

definition calculate_simple_decay :: "real \<Rightarrow> real \<Rightarrow> real \<Rightarrow> real" where
  "calculate_simple_decay N0 lam t_years = N0 * exp (- lam * t_years)"

definition mass_to_nuclei :: "real \<Rightarrow> real \<Rightarrow> real" where
  "mass_to_nuclei mass_g atomic_w =
     (if atomic_w \<le> 0 then 0 else (mass_g / atomic_w) * AVOGADRO_NUMBER)"

definition nuclei_to_mass :: "real \<Rightarrow> real \<Rightarrow> real" where
  "nuclei_to_mass nuclei atomic_w = (nuclei / AVOGADRO_NUMBER) * atomic_w"

subsection \<open>The time series of run_simple_mode\<close>

text \<open>
  \<^verbatim>\<open>np.linspace(start, stop, num)\<close> belongs to NumPy, not to the repository. It is
  modelled after NumPy's own body with \<^verbatim>\<open>endpoint=True\<close>: the indices
  \<open>0 .. num - 1\<close> are scaled by the step \<open>(stop - start) / (num - 1)\<close>, shifted by
  \<open>start\<close>, and the last sample is overwritten with \<open>stop\<close> when there is more
  than one.
\<close>

definition linspace :: "real \<Rightarrow> real \<Rightarrow> nat \<Rightarrow> real list" where
  "linspace start stop num =
     (let dv = num - 1;
          delta = stop - start;
          y = map real [0..<num];
          scaled =
            (if dv > 0 then
               (let step = delta / real dv
                in if step = 0 then map (\<lambda>v. v / real dv * delta) y
                   else map (\<lambda>v. v * step) y)
             else map (\<lambda>v. v * delta) y);
          shifted = map (\<lambda>v. v + start) scaled
      in if num > 1 then shifted[num - 1 := stop] else shifted)"

text \<open>
  The widgets of \<^verbatim>\<open>run_simple_mode\<close> are its inputs. The radio button
  \<^verbatim>\<open>simple_mode\<close> together with the number field it enables is one value:
  a mass in grams or a count of nuclei. The slider yields a natural number of steps.
\<close>

datatype input_mode = Massa real | Nucleos real

record simple_inputs =
  custom_lambda :: real
  t_val :: real
  t_unit :: string
  quantity :: input_mode
  atomic_w :: real
  steps :: nat

record simple_result =
  t_plot :: "real list"
  t_years_vec :: "real list"
  Nt_vec :: "real list"
  y_vals :: "real list"
  res_display :: real
  unit_label :: string

definition run_simple_mode :: "simple_inputs \<Rightarrow> simple_result" where
  "run_simple_mode inp =
     (let N0 = (case quantity inp of
                  Massa mass_initial \<Rightarrow> mass_to_nuclei mass_initial (atomic_w inp)
                | Nucleos n0 \<Rightarrow> n0);
          t_years_total = convert_time_to_years (t_val inp) (t_unit inp);
          Nt_final = calculate_simple_decay N0 (custom_lambda inp) t_years_total;
          max_t = (if t_val inp > 0 then t_val inp else 100);
          tp = linspace 0 max_t (steps inp + 1);
          tyv = map (\<lambda>x. convert_time_to_years x (t_unit inp)) tp;
          Ntv = map (calculate_simple_decay N0 (custom_lambda inp)) tyv
      in case quantity inp of
           Massa mass_initial \<Rightarrow>
             \<lparr>t_plot = tp, t_years_vec = tyv, Nt_vec = Ntv,
              y_vals = map (\<lambda>n. nuclei_to_mass n (atomic_w inp)) Ntv,
              res_display = nuclei_to_mass Nt_final (atomic_w inp),
              unit_label = ''g''\<rparr>
         | Nucleos n0 \<Rightarrow>
             \<lparr>t_plot = tp, t_years_vec = tyv, Nt_vec = Ntv,
              y_vals = Ntv,
              res_display = Nt_final,
              unit_label = ''N'' @ [CHR 0xC3, CHR 0xBA] @ ''cleos''\<rparr>)"

subsection \<open>The catalog handlers of render_manager\<close>

text \<open>
  The handlers report through the page, they raise nothing of their own. The outcome of a
  handler is the message it leaves, paired with the catalog after the call:
  \<^item> \<open>PreconditionError\<close> is the \<^verbatim>\<open>st.error\<close> branch of line 438 (at least one
    isotope is required);
  \<^item> \<open>KeyError\<close> is what Python's \<^verbatim>\<open>del\<close> raises on an absent key;
  \<^item> \<open>InvalidArgumentError\<close> is the failure the specification names; no branch of
    the source produces it.
\<close>

datatype error = InvalidArgumentError | PreconditionError | KeyError

text \<open>
  \<^verbatim>\<open>st.number_input(label, min_value)\<close> belongs to Streamlit, not to the repository.
  Its second positional argument is the lower bound of the field: the field yields no
  number below it, and a number entered below the bound comes out as the bound.
\<close>

definition number_input :: "real \<Rightarrow> real \<Rightarrow> real" where
  "number_input min_value entered = max min_value entered"

text \<open>
  The form "add" (lines 412-426). Its parameters are what is entered in the four
  fields; \<^verbatim>\<open>mass = st.number_input("Massa", 1.0, ...)\<close> and
  \<^verbatim>\<open>hl = st.number_input("Meia-vida", 1.0)\<close> both have the lower bound 1.0, and
  \<^verbatim>\<open>if name\<close> holds for a non-empty string. Writing the file
  (\<^verbatim>\<open>save_isotopes_to_file\<close>) and \<^verbatim>\<open>st.rerun\<close> act outside the catalog and
  are left out.
\<close>

definition add :: "catalog \<Rightarrow> string \<Rightarrow> real \<Rightarrow> real \<Rightarrow> string \<Rightarrow> error option \<times> catalog" where
  "add isotopes name mass_entered hl_entered unit_name =
     (let mass = number_input 1 mass_entered;
          hl = number_input 1 hl_entered
      in if name \<noteq> [] then
           (let hl_years = convert_time_to_years hl unit_name;
                lam = (if hl_years > 0 then ln 2 / hl_years else 0)
            in (None, AList.update name
                  \<lparr>lambda = lam, half_life = hl, unit = unit_name, atomic_weight = mass\<rparr>
                  isotopes))
         else (None, isotopes))"

text \<open>The "Remover" branch (lines 430-438).\<close>

definition remove :: "catalog \<Rightarrow> string \<Rightarrow> error option \<times> catalog" where
  "remove isotopes to_del =
     (if length isotopes > 1 then
        (if to_del \<in> set (map fst isotopes) then (None, AList.delete to_del isotopes)
         else (Some KeyError, isotopes))
      else (Some PreconditionError, isotopes))"

text \<open>The "Restaurar Padroes" branch (lines 440-443).\<close>

definition reset_to_defaults :: "catalog \<Rightarrow> error option \<times> catalog" where
  "reset_to_defaults isotopes = (None, DEFAULT_ISOTOPES)"

subsection \<open>The conversion as the specification words it\<close>

text \<open>
  The specification's \<open>toYears\<close>: the same table, and a failure with
  \<open>InvalidArgumentError\<close> on a unit that the table does not hold.
\<close>

definition toYears_spec :: "real \<Rightarrow> string \<Rightarrow> error + real" where
  "toYears_spec value unit_name =
     (case map_of CONVERSIONS_TO_YEARS unit_name of
        None \<Rightarrow> Inl InvalidArgumentError
      | Some f \<Rightarrow> Inr (value * f))"

definition recognized_units :: "string list" where
  "recognized_units = [''segundos'', ''minutos'', ''horas'', ''dias'', ''anos'']"

section \<open>Auxiliary facts\<close>

subsection \<open>The unit table\<close>

lemma map_of_conv_None:
  "u \<notin> set recognized_units \<Longrightarrow> map_of CONVERSIONS_TO_YEARS u = None"
  unfolding recognized_units_def CONVERSIONS_TO_YEARS_def
  by simp

lemma factor_segundos: "map_of CONVERSIONS_TO_YEARS ''segundos'' = Some (1 / 31557600)"
  by (simp add: CONVERSIONS_TO_YEARS_def)

lemma factor_minutos: "map_of CONVERSIONS_TO_YEARS ''minutos'' = Some (1 / 525960)"
  by (simp add: CONVERSIONS_TO_YEARS_def)

lemma factor_horas: "map_of CONVERSIONS_TO_YEARS ''horas'' = Some (1 / 8766)"
  by (simp add: CONVERSIONS_TO_YEARS_def)

lemma factor_dias: "map_of CONVERSIONS_TO_YEARS ''dias'' = Some (100 / 36525)"
  by (simp add: CONVERSIONS_TO_YEARS_def)

lemma factor_anos: "map_of CONVERSIONS_TO_YEARS ''anos'' = Some 1"
  by (simp add: CONVERSIONS_TO_YEARS_def)

lemmas factor_simps = factor_segundos factor_minutos factor_horas factor_dias factor_anos

lemma recognized_cases:
  "u \<in> set recognized_units \<Longrightarrow>
     u = ''segundos'' \<or> u = ''minutos'' \<or> u = ''horas'' \<or> u = ''dias'' \<or> u = ''anos''"
  unfolding recognized_units_def by simp

text \<open>Every factor the lookup can yield, the default included, is positive.\<close>

lemma factor_pos:
  "0 < (case map_of CONVERSIONS_TO_YEARS u of None \<Rightarrow> (1::real) | Some f \<Rightarrow> f)"
proof (cases "u \<in> set recognized_units")
  case False
  then show ?thesis by (simp add: map_of_conv_None)
next
  case True
  from recognized_cases [OF True] show ?thesis
    by (elim disjE) (simp_all add: factor_simps)
qed

subsection \<open>linspace\<close>

lemma linspace_length: "length (linspace a b n) = n"
  by (simp add: linspace_def Let_def)

lemma linspace_nth:
  assumes "i < n" and "1 < n"
  shows "linspace a b n ! i = a + real i * ((b - a) / real (n - 1))"
proof (cases "i = n - 1")
  case True
  with assms have "linspace a b n ! i = b"
    by (simp add: linspace_def Let_def)
  moreover from assms True have "a + real i * ((b - a) / real (n - 1)) = b"
    by simp
  ultimately show ?thesis by simp
next
  case False
  with assms show ?thesis
    by (auto simp add: linspace_def Let_def)
qed

lemma linspace_single: "linspace a b (Suc 0) = [a]"
  by (simp add: linspace_def Let_def)

lemma linspace_first: "0 < n \<Longrightarrow> linspace a b n ! 0 = a"
proof (cases "n = 1")
  case True
  then show ?thesis by (simp add: linspace_single)
next
  case False
  assume "0 < n"
  with False have "1 < n" by simp
  then show ?thesis using linspace_nth [of 0 n a b] by simp
qed

lemma linspace_last: "1 < n \<Longrightarrow> linspace a b n ! (n - 1) = b"
  by (simp add: linspace_def Let_def)

lemma linspace_spacing:
  assumes "Suc i < n"
  shows "linspace a b n ! Suc i - linspace a b n ! i = (b - a) / real (n - 1)"
proof -
  from assms have n: "1 < n" and i: "i < n" by simp_all
  define d where "d = (b - a) / real (n - 1)"
  have "linspace a b n ! Suc i = a + real (Suc i) * d"
    unfolding d_def by (rule linspace_nth [OF assms n])
  moreover have "linspace a b n ! i = a + real i * d"
    unfolding d_def by (rule linspace_nth [OF i n])
  ultimately have "linspace a b n ! Suc i - linspace a b n ! i = d"
    by (simp add: algebra_simps)
  then show ?thesis by (simp add: d_def)
qed

subsection \<open>Projections of run_simple_mode\<close>

lemma t_plot_run:
  "t_plot (run_simple_mode inp) =
     linspace 0 (if t_val inp > 0 then t_val inp else 100) (steps inp + 1)"
  by (simp add: run_simple_mode_def Let_def split: input_mode.split)

lemma t_years_vec_run:
  "t_years_vec (run_simple_mode inp) =
     map (\<lambda>x. convert_time_to_years x (t_unit inp)) (t_plot (run_simple_mode inp))"
  by (simp add: run_simple_mode_def Let_def split: input_mode.split)

lemma t_years_vec_nth:
  "i \<le> steps inp \<Longrightarrow>
     t_years_vec (run_simple_mode inp) ! i =
       convert_time_to_years (t_plot (run_simple_mode inp) ! i) (t_unit inp)"
  by (simp add: t_years_vec_run t_plot_run linspace_length)

lemma y_vals_length: "length (y_vals (run_simple_mode inp)) = steps inp + 1"
  by (simp add: run_simple_mode_def Let_def linspace_length split: input_mode.split)

subsection \<open>The catalog as a dict\<close>

lemma convert_pos: "0 < hl \<Longrightarrow> 0 < convert_time_to_years hl u"
  unfolding convert_time_to_years_def
  using factor_pos [of u] by simp

lemma number_input_ge: "min_value \<le> number_input min_value entered"
  by (simp add: number_input_def)

lemma number_input_id: "min_value \<le> entered \<Longrightarrow> number_input min_value entered = entered"
  by (simp add: number_input_def)

lemma number_input_below: "entered \<le> min_value \<Longrightarrow> number_input min_value entered = min_value"
  by (simp add: number_input_def)

text \<open>The half-life that reaches the handler is at least 1, so its value in years is positive.\<close>

lemma hl_years_pos: "0 < convert_time_to_years (number_input 1 hl) u"
proof -
  have "(0::real) < number_input 1 hl"
    using number_input_ge [of 1 hl] by simp
  then show ?thesis by (rule convert_pos)
qed

text \<open>What the form stores, for every entry in its fields.\<close>

lemma add_stores:
  "name \<noteq> [] \<Longrightarrow>
     add c name mass hl u =
       (None, AList.update name
          \<lparr>lambda = ln 2 / convert_time_to_years (number_input 1 hl) u,
           half_life = number_input 1 hl, unit = u,
           atomic_weight = number_input 1 mass\<rparr> c)"
  using hl_years_pos [of hl u] by (simp add: add_def Let_def)

lemma length_delete_distinct:
  "distinct (map fst al) \<Longrightarrow> k \<in> fst ` set al \<Longrightarrow>
     length (AList.delete k al) = length al - 1"
proof (induction al)
  case Nil
  then show ?case by simp
next
  case (Cons p al)
  show ?case
  proof (cases "fst p = k")
    case True
    with Cons.prems have "k \<notin> fst ` set al" by auto
    with True show ?thesis by (cases p) (simp add: AList.delete_id)
  next
    case False
    with Cons.prems have "k \<in> fst ` set al" and "distinct (map fst al)" by auto
    with Cons.IH have "length (AList.delete k al) = length al - 1" by simp
    moreover from \<open>k \<in> fst ` set al\<close> have "al \<noteq> []" by auto
    ultimately show ?thesis using False by (cases p) (auto simp add: AList.delete_eq)
  qed
qed

lemma delete_filter: "AList.delete k al = filter (\<lambda>p. fst p \<noteq> k) al"
  by (induction al) (auto simp add: AList.delete_eq)

lemma delete_nonempty:
  assumes "distinct (map fst al)" and "1 < length al"
  shows "AList.delete k al \<noteq> []"
proof (cases "k \<in> fst ` set al")
  case True
  with assms have "length (AList.delete k al) = length al - 1"
    by (simp add: length_delete_distinct)
  with assms show ?thesis by auto
next
  case False
  with assms show ?thesis by (auto simp add: AList.delete_id)
qed

lemma update_nonempty: "AList.update k v al \<noteq> []"
  by (cases al) auto

text \<open>
  Keys stay distinct, as in a dict, under each handler; adding and restoring the defaults
  never yield an empty catalog.
\<close>

lemma add_distinct: "distinct (map fst c) \<Longrightarrow> distinct (map fst (snd (add c n m h u)))"
  by (simp add: add_def Let_def AList.distinct_update)

lemma remove_distinct: "distinct (map fst c) \<Longrightarrow> distinct (map fst (snd (remove c n)))"
  by (simp add: remove_def AList.distinct_delete)

lemma add_nonempty: "c \<noteq> [] \<Longrightarrow> snd (add c n m h u) \<noteq> []"
  by (simp add: add_def Let_def update_nonempty)

lemma defaults_seven: "length DEFAULT_ISOTOPES = 7"
  by (simp add: DEFAULT_ISOTOPES_def)

lemma defaults_distinct: "distinct (map fst DEFAULT_ISOTOPES)"
  by (simp add: DEFAULT_ISOTOPES_def)

lemma reset_nonempty: "snd (reset_to_defaults c) \<noteq> []"
  by (simp add: reset_to_defaults_def DEFAULT_ISOTOPES_def)

section \<open>Properties\<close>

subsection \<open>Unit conversion\<close>

text \<open>
  Claim C1, as stated: for a unit outside the five recognized ones the conversion fails
  with \<open>InvalidArgumentError\<close>. The source does not: at the unit \<open>semanas\<close> the specified
  conversion fails, while \<open>convert_time_to_years\<close> returns its argument.
\<close>

theorem unknown_unit_counterexample:
  "''semanas'' \<notin> set recognized_units \<and>
   toYears_spec 5 ''semanas'' = Inl InvalidArgumentError \<and>
   convert_time_to_years 5 ''semanas'' = 5 \<and>
   toYears_spec 5 ''semanas'' \<noteq> Inr (convert_time_to_years 5 ''semanas'')"
  by (simp add: toYears_spec_def convert_time_to_years_def map_of_conv_None
      recognized_units_def)

text \<open>
  Claim C1, amended: for every value and every unit outside the five recognized ones,
  \<open>convert_time_to_years\<close> returns the value unchanged (the factor defaults to 1); it
  does not fail.
\<close>

theorem unknown_unit_factor_one:
  "u \<notin> set recognized_units \<Longrightarrow> convert_time_to_years v u = v"
  by (simp add: convert_time_to_years_def map_of_conv_None)

theorem unknown_unit_factor_one_witness:
  "''semanas'' \<notin> set recognized_units \<and> convert_time_to_years 7 ''semanas'' = 7"
proof -
  have u: "''semanas'' \<notin> set recognized_units"
    by (simp add: recognized_units_def)
  from u unknown_unit_factor_one [OF u, of 7] show ?thesis by simp
qed

subsection \<open>The decay law and the mass conversion\<close>

text \<open>
  Claim C4. The decay law is non-increasing in time: for a decay constant
  \<open>lam \<ge> 0\<close>, an initial quantity \<open>N0 \<ge> 0\<close> and times \<open>0 \<le> t1 < t2\<close>, the
  quantity at \<open>t2\<close> is at most the quantity at \<open>t1\<close>.
\<close>

theorem decay_mono:
  "0 \<le> lam \<Longrightarrow> 0 \<le> N0 \<Longrightarrow> 0 \<le> t1 \<Longrightarrow> t1 < t2 \<Longrightarrow>
     calculate_simple_decay N0 lam t2 \<le> calculate_simple_decay N0 lam t1"
  unfolding calculate_simple_decay_def
  by (intro mult_left_mono) (simp_all add: mult_left_mono)

theorem decay_mono_witness:
  "(0::real) \<le> 1 \<and> (0::real) \<le> 2 \<and> (0::real) \<le> 3 \<and> (3::real) < 4 \<and>
     calculate_simple_decay 2 1 4 \<le> calculate_simple_decay 2 1 3"
  using decay_mono [of 1 2 3 4] by simp

text \<open>
  Claim C6. Converting a mass \<open>m \<ge> 0\<close> to a count of nuclei and back, with the same
  atomic weight \<open>w > 0\<close>, returns \<open>m\<close>.
\<close>

theorem mass_roundtrip:
  "0 \<le> m \<Longrightarrow> 0 < w \<Longrightarrow> nuclei_to_mass (mass_to_nuclei m w) w = m"
  by (simp add: nuclei_to_mass_def mass_to_nuclei_def AVOGADRO_NUMBER_def)

theorem mass_roundtrip_witness:
  "(0::real) \<le> 1 \<and> (0::real) < 136907 / 1000 \<and>
     nuclei_to_mass (mass_to_nuclei 1 (136907 / 1000)) (136907 / 1000) = 1"
  using mass_roundtrip [of 1 "136907 / 1000"] by simp

text \<open>
  Claim C9. Evaluating the decay law at time zero returns the initial quantity itself:
  \<open>calculate_simple_decay N0 lam 0 = N0\<close> for every initial quantity and every
  decay constant.
\<close>

theorem decay_at_zero: "calculate_simple_decay N0 lam 0 = N0"
  by (simp add: calculate_simple_decay_def)

subsection \<open>The time series\<close>

text \<open>
  Claim C5. The series of a computation request has \<open>steps + 1\<close> points, on the time
  axis and on the quantity axis alike; its first time is 0; and consecutive times differ
  by the same amount, the span divided by the number of steps.
\<close>

theorem series_shape:
  "length (t_plot (run_simple_mode inp)) = steps inp + 1 \<and>
   length (y_vals (run_simple_mode inp)) = steps inp + 1 \<and>
   t_plot (run_simple_mode inp) ! 0 = 0 \<and>
   (\<forall>i < steps inp.
      t_plot (run_simple_mode inp) ! Suc i - t_plot (run_simple_mode inp) ! i =
        (if t_val inp > 0 then t_val inp else 100) / real (steps inp))"
  by (simp add: y_vals_length t_plot_run linspace_length linspace_first linspace_spacing)

theorem series_shape_witness:
  "length (t_plot (run_simple_mode \<lparr>custom_lambda = 1, t_val = 10, t_unit = ''anos'',
      quantity = Nucleos 1, atomic_w = 1, steps = 2\<rparr>)) = 3 \<and>
   length (y_vals (run_simple_mode \<lparr>custom_lambda = 1, t_val = 10, t_unit = ''anos'',
      quantity = Nucleos 1, atomic_w = 1, steps = 2\<rparr>)) = 3 \<and>
   t_plot (run_simple_mode \<lparr>custom_lambda = 1, t_val = 10, t_unit = ''anos'',
      quantity = Nucleos 1, atomic_w = 1, steps = 2\<rparr>) ! 0 = 0 \<and>
   t_plot (run_simple_mode \<lparr>custom_lambda = 1, t_val = 10, t_unit = ''anos'',
      quantity = Nucleos 1, atomic_w = 1, steps = 2\<rparr>) ! 1 -
   t_plot (run_simple_mode \<lparr>custom_lambda = 1, t_val = 10, t_unit = ''anos'',
      quantity = Nucleos 1, atomic_w = 1, steps = 2\<rparr>) ! 0 = 5 \<and>
   t_plot (run_simple_mode \<lparr>custom_lambda = 1, t_val = 10, t_unit = ''anos'',
      quantity = Nucleos 1, atomic_w = 1, steps = 2\<rparr>) ! 2 -
   t_plot (run_simple_mode \<lparr>custom_lambda = 1, t_val = 10, t_unit = ''anos'',
      quantity = Nucleos 1, atomic_w = 1, steps = 2\<rparr>) ! 1 = 5"
proof -
  define inp where "inp = \<lparr>custom_lambda = 1, t_val = 10, t_unit = ''anos'',
      quantity = Nucleos 1, atomic_w = 1, steps = 2\<rparr>"
  have s: "steps inp = 2" and t: "t_val inp = 10" by (simp_all add: inp_def)
  note sh = series_shape [of inp, unfolded s t]
  from sh have q: "i < 2 \<Longrightarrow>
      t_plot (run_simple_mode inp) ! Suc i - t_plot (run_simple_mode inp) ! i = 5" for i
    by simp
  have "t_plot (run_simple_mode inp) ! 1 - t_plot (run_simple_mode inp) ! 0 = 5"
    using q [of 0] by simp
  moreover have "t_plot (run_simple_mode inp) ! 2 - t_plot (run_simple_mode inp) ! 1 = 5"
    using q [of 1] by (simp add: numeral_2_eq_2)
  ultimately show ?thesis using sh unfolding inp_def [symmetric]
    by simp
qed

text \<open>
  Claim C7, as stated: for a duration \<open>\<le> 0\<close> the series runs over 100 years. The
  source replaces the duration before it converts the unit, so with the unit \<open>dias\<close>
  and 10 steps the last time of the series, in years, is \<open>400 / 1461\<close> (100 days),
  not 100.
\<close>

theorem default_span_counterexample:
  "t_val \<lparr>custom_lambda = 1, t_val = 0, t_unit = ''dias'',
      quantity = Nucleos 1, atomic_w = 1, steps = 10\<rparr> \<le> 0 \<and>
   t_years_vec (run_simple_mode \<lparr>custom_lambda = 1, t_val = 0, t_unit = ''dias'',
      quantity = Nucleos 1, atomic_w = 1, steps = 10\<rparr>) ! 10 = 400 / 1461 \<and>
   t_years_vec (run_simple_mode \<lparr>custom_lambda = 1, t_val = 0, t_unit = ''dias'',
      quantity = Nucleos 1, atomic_w = 1, steps = 10\<rparr>) ! 10 \<noteq> 100"
proof -
  define inp where "inp = \<lparr>custom_lambda = 1, t_val = 0, t_unit = ''dias'',
      quantity = Nucleos 1, atomic_w = 1, steps = 10\<rparr>"
  have "t_plot (run_simple_mode inp) ! 10 = 100"
    using linspace_last [of 11 0 100] by (simp add: t_plot_run inp_def)
  moreover have "t_years_vec (run_simple_mode inp) ! 10 =
      convert_time_to_years (t_plot (run_simple_mode inp) ! 10) ''dias''"
    using t_years_vec_nth [of 10 inp] by (simp add: inp_def)
  ultimately have "t_years_vec (run_simple_mode inp) ! 10 = 400 / 1461"
    by (simp add: convert_time_to_years_def factor_dias)
  then show ?thesis unfolding inp_def by simp
qed

text \<open>
  Claim C7, amended: for a duration \<open>\<le> 0\<close> and at least one step, the series is
  built over a span of 100 in the selected time unit. Its times are
  \<open>linspace 0 100 (steps + 1)\<close>, from 0 to 100 in that unit, and the last time in years
  is the conversion of 100 from that unit.
\<close>

theorem default_span_in_selected_unit:
  "t_val inp \<le> 0 \<Longrightarrow> 0 < steps inp \<Longrightarrow>
     t_plot (run_simple_mode inp) = linspace 0 100 (steps inp + 1) \<and>
     t_plot (run_simple_mode inp) ! 0 = 0 \<and>
     t_plot (run_simple_mode inp) ! steps inp = 100 \<and>
     t_years_vec (run_simple_mode inp) ! steps inp = convert_time_to_years 100 (t_unit inp)"
proof -
  assume t: "t_val inp \<le> 0" and s: "0 < steps inp"
  from t have tp: "t_plot (run_simple_mode inp) = linspace 0 100 (steps inp + 1)"
    by (simp add: t_plot_run)
  have first: "t_plot (run_simple_mode inp) ! 0 = 0"
    by (simp add: tp linspace_first)
  from s have lst: "t_plot (run_simple_mode inp) ! steps inp = 100"
    using linspace_last [of "steps inp + 1" 0 100] by (simp add: tp)
  have ty: "t_years_vec (run_simple_mode inp) ! steps inp =
      convert_time_to_years 100 (t_unit inp)"
    using t_years_vec_nth [of "steps inp" inp] by (simp add: lst)
  from tp first lst ty show ?thesis by simp
qed

theorem default_span_in_selected_unit_witness:
  "t_val \<lparr>custom_lambda = 1, t_val = - 3, t_unit = ''horas'',
      quantity = Massa 1, atomic_w = 2, steps = 4\<rparr> \<le> 0 \<and>
   0 < steps \<lparr>custom_lambda = 1, t_val = - 3, t_unit = ''horas'',
      quantity = Massa 1, atomic_w = 2, steps = 4\<rparr> \<and>
   t_plot (run_simple_mode \<lparr>custom_lambda = 1, t_val = - 3, t_unit = ''horas'',
      quantity = Massa 1, atomic_w = 2, steps = 4\<rparr>) ! 4 = 100 \<and>
   t_years_vec (run_simple_mode \<lparr>custom_lambda = 1, t_val = - 3, t_unit = ''horas'',
      quantity = Massa 1, atomic_w = 2, steps = 4\<rparr>) ! 4 = 100 / 8766"
proof -
  define inp where "inp = \<lparr>custom_lambda = 1, t_val = - 3, t_unit = ''horas'',
      quantity = Massa 1, atomic_w = 2, steps = 4\<rparr>"
  have t: "t_val inp \<le> 0" and s: "0 < steps inp" by (simp_all add: inp_def)
  have u: "t_unit inp = ''horas''" and n: "steps inp = 4" by (simp_all add: inp_def)
  from default_span_in_selected_unit [OF t s]
  have "t_plot (run_simple_mode inp) ! steps inp = 100"
    and "t_years_vec (run_simple_mode inp) ! steps inp =
      convert_time_to_years 100 (t_unit inp)"
    by blast+
  then have "t_plot (run_simple_mode inp) ! 4 = 100"
    and "t_years_vec (run_simple_mode inp) ! 4 = convert_time_to_years 100 ''horas''"
    unfolding u n by simp_all
  then show ?thesis using t s unfolding inp_def [symmetric]
    by (simp add: convert_time_to_years_def factor_horas)
qed

subsection \<open>The catalog\<close>




text \<open>
  Claim C8. Whenever the form creates an isotope from a half-life, that is under a
  non-empty name and from a half-life of at least 1, the least its field yields, the
  stored decay constant is \<open>ln 2\<close> divided by that half-life converted to years, and
  the half-life and its unit are stored as given.
\<close>

theorem add_lambda_from_half_life:
  "name \<noteq> [] \<Longrightarrow> 1 \<le> hl \<Longrightarrow>
     map_option lambda (map_of (snd (add c name mass hl u)) name) =
       Some (ln 2 / convert_time_to_years hl u) \<and>
     map_option half_life (map_of (snd (add c name mass hl u)) name) = Some hl \<and>
     map_option unit (map_of (snd (add c name mass hl u)) name) = Some u"
proof -
  assume n: "name \<noteq> []" and h: "1 \<le> hl"
  from h have "number_input 1 hl = hl"
    by (rule number_input_id)
  then show ?thesis
    by (simp add: add_stores [OF n] AList.update_conv')
qed

theorem add_lambda_from_half_life_witness:
  "''Y'' \<noteq> [] \<and> (1::real) \<le> 2 \<and>
   map_option lambda (map_of (snd (add [] ''Y'' 10 2 ''anos'')) ''Y'') = Some (ln 2 / 2) \<and>
   map_option half_life (map_of (snd (add [] ''Y'' 10 2 ''anos'')) ''Y'') = Some 2 \<and>
   map_option unit (map_of (snd (add [] ''Y'' 10 2 ''anos'')) ''Y'') = Some ''anos''"
  using add_lambda_from_half_life [of "''Y''" 2 "[]" 10 "''anos''"]
  by (simp add: convert_time_to_years_def factor_anos)

text \<open>
  Claim C3. On a catalog with exactly one entry the removal is refused with
  \<open>PreconditionError\<close> and the catalog is the same afterwards; hence a catalog that
  holds an entry still holds one after any removal. The catalog is a dict: its keys are
  distinct.
\<close>

theorem remove_keeps_one_entry:
  "distinct (map fst c) \<Longrightarrow>
     (length c = 1 \<longrightarrow> remove c name = (Some PreconditionError, c)) \<and>
     (c \<noteq> [] \<longrightarrow> snd (remove c name) \<noteq> [])"
  by (simp add: remove_def delete_nonempty)

theorem remove_keeps_one_entry_witness:
  "distinct (map fst [(''Carbono-14'',
      \<lparr>lambda = 1, half_life = 5730, unit = ''anos'', atomic_weight = 14\<rparr>)]) \<and>
   length [(''Carbono-14'',
      \<lparr>lambda = 1, half_life = 5730, unit = ''anos'', atomic_weight = 14\<rparr>)] = 1 \<and>
   [(''Carbono-14'',
      \<lparr>lambda = 1, half_life = 5730, unit = ''anos'', atomic_weight = 14\<rparr>)] \<noteq> [] \<and>
   remove [(''Carbono-14'',
      \<lparr>lambda = 1, half_life = 5730, unit = ''anos'', atomic_weight = 14\<rparr>)] ''Carbono-14'' =
     (Some PreconditionError, [(''Carbono-14'',
      \<lparr>lambda = 1, half_life = 5730, unit = ''anos'', atomic_weight = 14\<rparr>)]) \<and>
   snd (remove [(''Carbono-14'',
      \<lparr>lambda = 1, half_life = 5730, unit = ''anos'', atomic_weight = 14\<rparr>)] ''Carbono-14'') \<noteq> []"
  using remove_keeps_one_entry [of "[(''Carbono-14'',
      \<lparr>lambda = 1, half_life = 5730, unit = ''anos'', atomic_weight = 14\<rparr>)]" "''Carbono-14''"]
  by simp

text \<open>
  Claim C10. On a catalog with more than one entry that holds the given name, the
  removal reports no error and deletes that entry only: what remains is the catalog
  without the pairs of that name, in the same order, one entry shorter, and every other
  name looks up the same isotope as before.
\<close>

theorem remove_deletes_only_named:
  "1 < length c \<Longrightarrow> name \<in> fst ` set c \<Longrightarrow> distinct (map fst c) \<Longrightarrow>
     fst (remove c name) = None \<and>
     snd (remove c name) = filter (\<lambda>p. fst p \<noteq> name) c \<and>
     length (snd (remove c name)) = length c - 1 \<and>
     map_of (snd (remove c name)) = (map_of c)(name := None)"
  by (simp add: remove_def delete_filter [symmetric] length_delete_distinct AList.delete_conv')

theorem remove_deletes_only_named_witness:
  "1 < length [(''A'', \<lparr>lambda = 1, half_life = 2, unit = ''anos'', atomic_weight = 3\<rparr>),
               (''B'', \<lparr>lambda = 4, half_life = 5, unit = ''dias'', atomic_weight = 6\<rparr>)] \<and>
   ''A'' \<in> fst ` set [(''A'', \<lparr>lambda = 1, half_life = 2, unit = ''anos'', atomic_weight = 3\<rparr>),
               (''B'', \<lparr>lambda = 4, half_life = 5, unit = ''dias'', atomic_weight = 6\<rparr>)] \<and>
   distinct (map fst [(''A'', \<lparr>lambda = 1, half_life = 2, unit = ''anos'', atomic_weight = 3\<rparr>),
               (''B'', \<lparr>lambda = 4, half_life = 5, unit = ''dias'', atomic_weight = 6\<rparr>)]) \<and>
   remove [(''A'', \<lparr>lambda = 1, half_life = 2, unit = ''anos'', atomic_weight = 3\<rparr>),
           (''B'', \<lparr>lambda = 4, half_life = 5, unit = ''dias'', atomic_weight = 6\<rparr>)] ''A'' =
     (None, [(''B'', \<lparr>lambda = 4, half_life = 5, unit = ''dias'', atomic_weight = 6\<rparr>)])"
proof -
  define c where "c = [(''A'', \<lparr>lambda = 1, half_life = 2, unit = ''anos'', atomic_weight = 3\<rparr>),
               (''B'', \<lparr>lambda = 4, half_life = 5, unit = ''dias'', atomic_weight = (6::real)\<rparr>)]"
  have h1: "1 < length c" and h2: "''A'' \<in> fst ` set c" and h3: "distinct (map fst c)"
    by (simp_all add: c_def)
  from remove_deletes_only_named [OF h1 h2 h3]
  have "fst (remove c ''A'') = None"
    and "snd (remove c ''A'') = filter (\<lambda>p. fst p \<noteq> ''A'') c"
    by blast+
  then have "remove c ''A'' =
      (None, [(''B'', \<lparr>lambda = 4, half_life = 5, unit = ''dias'', atomic_weight = 6\<rparr>)])"
    by (simp add: prod_eq_iff c_def)
  with h1 h2 h3 show ?thesis unfolding c_def by simp
qed

end
